theory Spec2Isabelle
  imports Complex_Main "HOL-Library.AList"
begin

section \<open>Data model of the yard simulator\<close>

text \<open>
  The types follow the interfaces of the yard module (\<open>Train\<close>, \<open>InspectionBay\<close>,
  \<open>WorkshopLine\<close>, \<open>SidingSlot\<close>, \<open>YardEvent\<close>, \<open>YardDefinition\<close>,
  \<open>AssignmentRecommendation\<close>, \<open>SimulatorCommand\<close>) and the class \<open>YardSimulator\<close>.

  Conventions of the embedding:
  \<^item> a JavaScript \<open>number\<close> that carries a quantity (score, cost, fitness, mileage,
    speed) is a \<open>real\<close>; \<open>NaN\<close>, which \<open>parseInt\<close> produces, is \<open>None\<close> of an
    option; lengths, indices and \<open>Date.now()\<close> are \<open>nat\<close>;
  \<open>Infinity\<close> and rounding of doubles are not modelled;
  \<^item> an optional field (\<open>occupiedBy?: string\<close>) is an option; the truthiness tests of the
    source (\<open>x || d\<close>, \<open>if (x)\<close>) are written out: \<open>undefined\<close>, the empty string
    and \<open>0\<close> are falsy;
  \<^item> a \<open>Record<string, T>\<close> is an association list in insertion order, which is the
    order \<open>Object.values\<close> enumerates keys that are not array indices (the ids of this
    program: \<open>train_...\<close>, \<open>IL1\<close>, \<open>WL4\<close>, \<open>S1a\<close>); writing an existing key keeps its
    position (\<open>AList.update\<close>);
  \<^item> objects are mutated in place in the source; the model passes the state and returns
    the updated one;
  \<^item> \<open>Date.now()\<close> and every \<open>Math.random()\<close> draw are inputs (record \<open>Env\<close>);
  \<^item> \<open>setTimeout\<close> appends a pending timer to the state; firing a pending timer is
    an engine step of its own;
  \<^item> an uncaught \<open>TypeError\<close> (reading a property of \<open>undefined\<close>) is the result
    \<open>None\<close> of an operation;
  \<^item> record fields carry a prefix naming their interface (\<open>t_status\<close> is
    \<open>Train.status\<close>), since field names are global constants.
\<close>

datatype TrainStatus =
  Arriving | Queued | Inspection | Moving | Parked | Workshop | Test | Departed

datatype Orientation = North | South | East | West

record JobTask =
  jt_id :: string
  jt_desc :: string
  jt_done :: bool

record Train =
  t_id :: string
  t_number :: string
  t_status :: TrainStatus
  t_locationNodeId :: string
  t_orientation :: Orientation
  t_fitness :: real
  t_mileage :: real
  t_jobCard :: "JobTask list"
  t_failures :: "string list"
  t_priority :: bool
  t_departSoon :: bool
  t_arrivalTime :: nat
  t_lastUpdated :: nat

text \<open>\<open>Partial<Train>\<close>, restricted to the fields \<open>enqueueTrain\<close> reads.\<close>

record PartialTrain =
  p_number :: "string option"
  p_fitness :: "real option"
  p_mileage :: "real option"
  p_jobCard :: "JobTask list option"
  p_failures :: "string list option"
  p_priority :: "bool option"
  p_departSoon :: "bool option"

datatype SlotLetter = SlotA | SlotB

datatype BlockingRisk = Low | Medium | High

datatype BayStatus = BayFree | BayOccupied | BayCleaning

datatype LineStatus = LineFree | LineOccupied | LineMaintenance

record InspectionBay =
  b_id :: string
  b_name :: string
  b_nodeId :: string
  b_occupiedBy :: "string option"
  b_inspectionStartTime :: "nat option"
  b_inspectionDuration :: real
  b_status :: BayStatus

record WorkshopLine =
  w_id :: string
  w_name :: string
  w_nodeId :: string
  w_occupiedBy :: "string option"
  w_specialization :: "string option"
  w_capacity :: nat
  w_status :: LineStatus

record SidingSlot =
  s_id :: string
  s_sidingId :: string
  s_slot :: SlotLetter
  s_occupiedBy :: "string option"
  s_reverseCost :: "real option"
  s_blockingRisk :: "BlockingRisk option"

datatype EventType =
  TrainCreated | TrainMoved | TrainUpdated | InspectionResult | WorkshopUpdated | PlanPreview

datatype Severity = Info | Warning | Error | Success

text \<open>
  A \<open>YardEvent\<close> without its random \<open>id\<close> and its free-form \<open>data\<close> payload.
\<close>

record YardEvent =
  e_timestamp :: nat
  e_type :: EventType
  e_trainId :: "string option"
  e_message :: string
  e_severity :: Severity

text \<open>
  The part of a topology node the simulator reads: its label and, for a siding slot,
  the metadata \<open>sidingId\<close>, \<open>slot\<close> and \<open>reverseCost\<close>. Coordinates are used only for
  the distance estimate of a recommendation, which is a floating-point square root and
  is left out, with \<open>ETAToPark\<close>.
\<close>

record NodeMetadata =
  m_sidingId :: string
  m_slot :: SlotLetter
  m_reverseCost :: "real option"

record Node =
  n_label :: "string option"
  n_metadata :: "NodeMetadata option"

record YardDefinition =
  d_nodes :: "string \<rightharpoonup> Node"
  d_inspectionBays :: "string list"
  d_workshopLines :: "string list"
  d_sidingSlots :: "string list"

datatype TargetType = TargetSiding | TargetWorkshop | TargetTest

record AssignmentRecommendation =
  r_targetId :: string
  r_targetType :: TargetType
  r_slot :: "SlotLetter option"
  r_score :: "real option"
  r_reverseCost :: real
  r_blockingRisk :: BlockingRisk
  r_estimatedShuntSteps :: nat
  r_reasoning :: "string list"
  r_warnings :: "string list"

text \<open>The callbacks handed to \<open>setTimeout\<close>, with their arguments.\<close>

datatype Timer =
  CallAutoAssignToInspection string
| CallCompleteInspection string string
| CallAssignTrainToSiding string string "SlotLetter option"
| CallAssignTrainToWorkshop string string
| CallCompleteWorkshop string string

text \<open>
  \<open>YardState\<close>, and the timers waiting in the event loop (delay in milliseconds and
  callback). \<open>lockedSegments\<close> and \<open>activePlans\<close> are created empty and never
  touched; they are left out.
\<close>

record YardState =
  trains :: "(string \<times> Train) list"
  inspectionBays :: "(string \<times> InspectionBay) list"
  workshopLines :: "(string \<times> WorkshopLine) list"
  sidingSlots :: "(string \<times> SidingSlot) list"
  eventLog :: "YardEvent list"
  simulationSpeed :: real
  lastUpdate :: nat
  pending :: "(real \<times> Timer) list"

text \<open>
  What one engine step reads from outside: the clock, the random suffix of a train id
  (\<open>Math.random().toString(36).substr(2, 9)\<close>) and the \<open>Math.random()\<close> draws for the
  default fitness, the default mileage and the inspection outcome, each in \<open>[0, 1)\<close>.
\<close>

record Env =
  now :: nat
  randomId :: string
  randomFitness :: real
  randomMileage :: real
  randomPass :: real

datatype CommandType =
  CreateTrain | AssignTrain | RemoveTrain | PreviewPlan | ExecutePlan | Pause | Resume
| SpeedChange

text \<open>
  The \<open>data\<close> object of a command: the train attributes read by \<open>create_train\<close>, and
  \<open>targetId\<close> (taken as present), \<open>targetType\<close>, \<open>slot\<close>, \<open>speed\<close>.
\<close>

record CommandData =
  cd_train :: PartialTrain
  cd_targetId :: string
  cd_targetType :: "string option"
  cd_slot :: "SlotLetter option"
  cd_speed :: "real option"

record SimulatorCommand =
  c_type :: CommandType
  c_trainId :: "string option"
  c_data :: "CommandData option"

section \<open>Strings and numbers\<close>

text \<open>Decimal rendering of a natural number, as a template literal does.\<close>

definition digitChar :: "nat \<Rightarrow> char" where
  "digitChar d = ''0123456789'' ! d"

function showNat :: "nat \<Rightarrow> string" where
  "showNat n = (if n < 10 then [digitChar n] else showNat (n div 10) @ [digitChar (n mod 10)])"
  by pat_completeness auto
termination
  by (relation "measure (\<lambda>n. n)") auto

declare showNat.simps [simp del]

text \<open>
  \<open>parseInt(s)\<close> without a radix: leading white space is skipped, a sign is read, a
  prefix \<open>0x\<close> or \<open>0X\<close> selects radix 16, the longest prefix of digits is converted,
  and no digit at all gives \<open>NaN\<close> (\<open>None\<close>). Strings are ASCII here.
\<close>

definition isWhiteSpace :: "char \<Rightarrow> bool" where
  "isWhiteSpace c = (c \<in> set [CHR 0x20, CHR 0x09, CHR 0x0A, CHR 0x0B, CHR 0x0C, CHR 0x0D])"

definition digitTable :: "(char \<times> nat) list" where
  "digitTable =
     [(CHR ''0'', 0), (CHR ''1'', 1), (CHR ''2'', 2), (CHR ''3'', 3), (CHR ''4'', 4),
      (CHR ''5'', 5), (CHR ''6'', 6), (CHR ''7'', 7), (CHR ''8'', 8), (CHR ''9'', 9),
      (CHR ''a'', 10), (CHR ''b'', 11), (CHR ''c'', 12), (CHR ''d'', 13), (CHR ''e'', 14),
      (CHR ''f'', 15), (CHR ''A'', 10), (CHR ''B'', 11), (CHR ''C'', 12), (CHR ''D'', 13),
      (CHR ''E'', 14), (CHR ''F'', 15)]"

definition digitValue :: "nat \<Rightarrow> char \<Rightarrow> nat option" where
  "digitValue radix c =
     (case map_of digitTable c of
        None \<Rightarrow> None
      | Some v \<Rightarrow> if v < radix then Some v else None)"

definition parseInt :: "string \<Rightarrow> int option" where
  "parseInt str =
     (let s1 = dropWhile isWhiteSpace str;
          sign = (if s1 \<noteq> [] \<and> hd s1 = CHR ''-'' then - 1 else (1 :: int));
          s2 = (if s1 \<noteq> [] \<and> (hd s1 = CHR ''+'' \<or> hd s1 = CHR ''-'') then tl s1 else s1);
          hex = (take 2 s2 = ''0x'' \<or> take 2 s2 = ''0X'');
          radix = (if hex then 16 else 10);
          s3 = (if hex then drop 2 s2 else s2);
          z = takeWhile (\<lambda>c. digitValue radix c \<noteq> None) s3
      in if z = [] then None
         else Some (sign * int (foldl (\<lambda>acc c. acc * radix + the (digitValue radix c)) 0 z)))"

section \<open>Initialization\<close>

text \<open>\<open>x || d\<close> on an optional string and on an optional number.\<close>

definition orString :: "string option \<Rightarrow> string \<Rightarrow> string" where
  "orString x d = (case x of None \<Rightarrow> d | Some v \<Rightarrow> if v = [] then d else v)"

definition orNumber :: "real option \<Rightarrow> real \<Rightarrow> real" where
  "orNumber x d = (case x of None \<Rightarrow> d | Some v \<Rightarrow> if v = 0 then d else v)"

definition orBool :: "bool option \<Rightarrow> bool \<Rightarrow> bool" where
  "orBool x d = (case x of None \<Rightarrow> d | Some v \<Rightarrow> if v then v else d)"

text \<open>Truthiness of an optional string (\<open>if (slot.occupiedBy)\<close>).\<close>

definition truthy :: "string option \<Rightarrow> bool" where
  "truthy x = (case x of None \<Rightarrow> False | Some v \<Rightarrow> v \<noteq> [])"

definition calculateBlockingRisk :: "string \<Rightarrow> SlotLetter \<Rightarrow> BlockingRisk" where
  "calculateBlockingRisk sidingId slot =
     (let sidingNum = parseInt (drop 1 sidingId);
          gt = (\<lambda>k. case sidingNum of None \<Rightarrow> False | Some n \<Rightarrow> n > k)
      in if slot = SlotA then (if gt 8 then Low else if gt 4 then Medium else High)
         else (if gt 8 then Medium else High))"


text \<open>
  A \<open>forEach\<close> over the node ids of the definition that fills a registry. The callback
  gives \<open>None\<close> when it raises (the node is missing), \<open>Some None\<close> when it stores
  nothing, and \<open>Some (Some v)\<close> when it stores \<open>v\<close> under the node id.
\<close>

fun forEachInto ::
  "(nat \<Rightarrow> string \<Rightarrow> 'a option option) \<Rightarrow> nat \<Rightarrow> string list \<Rightarrow> (string \<times> 'a) list
     \<Rightarrow> (string \<times> 'a) list option" where
  "forEachInto f index [] acc = Some acc"
| "forEachInto f index (nodeId # rest) acc =
     (case f index nodeId of
        None \<Rightarrow> None
      | Some None \<Rightarrow> forEachInto f (Suc index) rest acc
      | Some (Some v) \<Rightarrow> forEachInto f (Suc index) rest (AList.update nodeId v acc))"

definition initBay :: "YardDefinition \<Rightarrow> nat \<Rightarrow> string \<Rightarrow> InspectionBay option option" where
  "initBay def index nodeId =
     (case d_nodes def nodeId of
        None \<Rightarrow> None
      | Some node \<Rightarrow> Some (Some
          \<lparr> b_id = nodeId,
            b_name = orString (n_label node) (''IL-'' @ showNat (index + 1)),
            b_nodeId = nodeId,
            b_occupiedBy = None,
            b_inspectionStartTime = None,
            b_inspectionDuration = 5 * 60 * 1000,
            b_status = BayFree \<rparr>))"

definition initLine :: "YardDefinition \<Rightarrow> nat \<Rightarrow> string \<Rightarrow> WorkshopLine option option" where
  "initLine def index nodeId =
     (let specialization = (if nodeId = ''WL4'' then Some ''wheel-alignment'' else None)
      in case d_nodes def nodeId of
           None \<Rightarrow> None
         | Some node \<Rightarrow> Some (Some
             \<lparr> w_id = nodeId,
               w_name = orString (n_label node) (''WL-'' @ showNat (index + 1)),
               w_nodeId = nodeId,
               w_occupiedBy = None,
               w_specialization = specialization,
               w_capacity = 1,
               w_status = LineFree \<rparr>))"

definition initSlot :: "YardDefinition \<Rightarrow> nat \<Rightarrow> string \<Rightarrow> SidingSlot option option" where
  "initSlot def index nodeId =
     (case d_nodes def nodeId of
        None \<Rightarrow> None
      | Some node \<Rightarrow>
          (case n_metadata node of
             None \<Rightarrow> Some None
           | Some metadata \<Rightarrow> Some (Some
               \<lparr> s_id = nodeId,
                 s_sidingId = m_sidingId metadata,
                 s_slot = m_slot metadata,
                 s_occupiedBy = None,
                 s_reverseCost = m_reverseCost metadata,
                 s_blockingRisk =
                   Some (calculateBlockingRisk (m_sidingId metadata) (m_slot metadata)) \<rparr>)))"

definition initializeState :: "YardDefinition \<Rightarrow> nat \<Rightarrow> YardState option" where
  "initializeState def dateNow =
     (case forEachInto (initBay def) 0 (d_inspectionBays def) [] of
        None \<Rightarrow> None
      | Some bays \<Rightarrow>
     (case forEachInto (initLine def) 0 (d_workshopLines def) [] of
        None \<Rightarrow> None
      | Some lines \<Rightarrow>
     (case forEachInto (initSlot def) 0 (d_sidingSlots def) [] of
        None \<Rightarrow> None
      | Some slots \<Rightarrow> Some
          \<lparr> trains = [],
            inspectionBays = bays,
            workshopLines = lines,
            sidingSlots = slots,
            eventLog = [],
            simulationSpeed = 1,
            lastUpdate = dateNow,
            pending = [] \<rparr>)))"

section \<open>Events and timers\<close>

text \<open>
  \<open>emitEvent\<close> appends the event to the log. The registered handlers are observers
  outside the engine and are not part of the model.
\<close>

definition emitEvent ::
  "nat \<Rightarrow> EventType \<Rightarrow> string \<Rightarrow> string \<Rightarrow> Severity \<Rightarrow> YardState \<Rightarrow> YardState" where
  "emitEvent dateNow ty trainId message severity s =
     s\<lparr> eventLog := eventLog s @
          [\<lparr> e_timestamp = dateNow, e_type = ty, e_trainId = Some trainId,
             e_message = message, e_severity = severity \<rparr>] \<rparr>"

definition setTimeout :: "Timer \<Rightarrow> real \<Rightarrow> YardState \<Rightarrow> YardState" where
  "setTimeout callback delay s = s\<lparr> pending := pending s @ [(delay, callback)] \<rparr>"

section \<open>Scoring and recommendations\<close>

definition arrayIncludes :: "string list \<Rightarrow> string \<Rightarrow> bool" where
  "arrayIncludes xs x = (x \<in> set xs)"

text \<open>
  \<open>calculateSidingScore\<close>. The siding number is parsed in any case; it enters the
  score, and can turn it into \<open>NaN\<close>, only for a priority train.
\<close>

definition calculateSidingScore :: "Train \<Rightarrow> SidingSlot \<Rightarrow> real option" where
  "calculateSidingScore train slot =
     (let score = 100;
          score = (if t_departSoon train \<and> s_slot slot = SlotA then score + 20 else score);
          score = (if t_departSoon train \<and> s_slot slot = SlotB then score - 10 else score);
          score = score - orNumber (s_reverseCost slot) 1 * 5;
          score = (if s_blockingRisk slot = Some Low then score + 10 else score);
          score = (if s_blockingRisk slot = Some High then score - 10 else score);
          sidingNum = parseInt (drop 1 (s_sidingId slot))
      in if t_priority train
         then (case sidingNum of
                 None \<Rightarrow> None
               | Some n \<Rightarrow> Some (max 0 (score + (13 - real_of_int n) * 2)))
         else Some (max 0 score))"

definition calculateWorkshopScore :: "Train \<Rightarrow> WorkshopLine \<Rightarrow> real" where
  "calculateWorkshopScore train workshop =
     (let score = 100;
          score = (if arrayIncludes (t_failures train) ''wheel-alignment''
                      \<and> w_specialization workshop = Some ''wheel-alignment''
                   then score + 50 else score);
          score = (if t_priority train \<and> w_id workshop = ''WL1'' then score + 10 else score)
      in score)"

definition generateSidingReasoning :: "Train \<Rightarrow> SidingSlot \<Rightarrow> string list" where
  "generateSidingReasoning train slot =
     (if s_slot slot = SlotA then [''Front position - easier departure''] else []) @
     (if s_blockingRisk slot = Some Low then [''Low blocking risk''] else []) @
     (if t_departSoon train \<and> s_slot slot = SlotA
      then [''Suitable for morning departure''] else []) @
     (if t_priority train then [''Priority train - close to exit''] else [])"

definition generateSidingWarnings :: "Train \<Rightarrow> SidingSlot \<Rightarrow> string list" where
  "generateSidingWarnings train slot =
     (if s_blockingRisk slot = Some High
      then [''High blocking risk for future operations''] else []) @
     (if s_slot slot = SlotB \<and> t_departSoon train
      then [''Rear position may delay morning departure''] else []) @
     (if orNumber (s_reverseCost slot) 0 > 2
      then [''High reverse cost for positioning''] else [])"

definition generateWorkshopReasoning :: "Train \<Rightarrow> WorkshopLine \<Rightarrow> string list" where
  "generateWorkshopReasoning train workshop =
     (if w_specialization workshop = Some ''wheel-alignment''
         \<and> arrayIncludes (t_failures train) ''wheel-alignment''
      then [''Specialized for wheel alignment repairs''] else []) @
     (if w_id workshop = ''WL1'' then [''Primary workshop line''] else [])"

text \<open>
  \<open>recommendations.sort((a, b) => b.score - a.score)\<close>: a stable sort, higher score
  first. \<open>scoreBefore x y\<close> says that the comparator is negative on \<open>(x, y)\<close>; a
  comparison with \<open>NaN\<close> is \<open>NaN\<close>, which the sort reads as \<open>0\<close>. Each element is
  inserted behind the elements it does not strictly precede.
\<close>

definition scoreBefore :: "real option \<Rightarrow> real option \<Rightarrow> bool" where
  "scoreBefore x y = (case (x, y) of (Some a, Some b) \<Rightarrow> b - a < 0 | _ \<Rightarrow> False)"

fun insertByScore ::
  "AssignmentRecommendation \<Rightarrow> AssignmentRecommendation list \<Rightarrow> AssignmentRecommendation list"
  where
  "insertByScore r [] = [r]"
| "insertByScore r (x # xs) =
     (if scoreBefore (r_score r) (r_score x) then r # x # xs else x # insertByScore r xs)"

definition sortByScore :: "AssignmentRecommendation list \<Rightarrow> AssignmentRecommendation list" where
  "sortByScore recs = foldl (\<lambda>sorted r. insertByScore r sorted) [] recs"

definition sidingRecommendation :: "Train \<Rightarrow> SidingSlot \<Rightarrow> AssignmentRecommendation" where
  "sidingRecommendation train slot =
     \<lparr> r_targetId = s_id slot,
       r_targetType = TargetSiding,
       r_slot = Some (s_slot slot),
       r_score = calculateSidingScore train slot,
       r_reverseCost = orNumber (s_reverseCost slot) 1,
       r_blockingRisk = (case s_blockingRisk slot of None \<Rightarrow> Medium | Some risk \<Rightarrow> risk),
       r_estimatedShuntSteps = (if s_slot slot = SlotB then 1 else 0),
       r_reasoning = generateSidingReasoning train slot,
       r_warnings = generateSidingWarnings train slot \<rparr>"

definition generateSidingRecommendations ::
  "YardState \<Rightarrow> string \<Rightarrow> AssignmentRecommendation list" where
  "generateSidingRecommendations s trainId =
     (case map_of (trains s) trainId of
        None \<Rightarrow> []
      | Some train \<Rightarrow>
          take 5 (sortByScore
            (map (sidingRecommendation train)
               (filter (\<lambda>slot. \<not> truthy (s_occupiedBy slot)) (map snd (sidingSlots s))))))"

definition workshopRecommendation :: "Train \<Rightarrow> WorkshopLine \<Rightarrow> AssignmentRecommendation" where
  "workshopRecommendation train workshop =
     \<lparr> r_targetId = w_id workshop,
       r_targetType = TargetWorkshop,
       r_slot = None,
       r_score = Some (calculateWorkshopScore train workshop),
       r_reverseCost = 1,
       r_blockingRisk = Low,
       r_estimatedShuntSteps = 0,
       r_reasoning = generateWorkshopReasoning train workshop,
       r_warnings = [] \<rparr>"

definition generateWorkshopRecommendations ::
  "YardState \<Rightarrow> string \<Rightarrow> AssignmentRecommendation list" where
  "generateWorkshopRecommendations s trainId =
     (case map_of (trains s) trainId of
        None \<Rightarrow> []
      | Some train \<Rightarrow>
          (let needsWheelAlignment = arrayIncludes (t_failures train) ''wheel-alignment''
           in sortByScore
                (map (workshopRecommendation train)
                   (filter (\<lambda>workshop. \<not> truthy (w_occupiedBy workshop)
                        \<and> \<not> (needsWheelAlignment
                             \<and> w_specialization workshop \<noteq> Some ''wheel-alignment''))
                      (map snd (workshopLines s))))))"


section \<open>Operations of the engine\<close>

definition slotLetter :: "SlotLetter \<Rightarrow> string" where
  "slotLetter l = (case l of SlotA \<Rightarrow> ''a'' | SlotB \<Rightarrow> ''b'')"

text \<open>
  \<open>enqueueTrain\<close> returns the generated id and the new state. A default is drawn
  wherever the supplied value is falsy.
\<close>

definition enqueueTrain :: "Env \<Rightarrow> PartialTrain \<Rightarrow> YardState \<Rightarrow> string \<times> YardState" where
  "enqueueTrain env trainData s =
     (let trainId = ''train_'' @ showNat (now env) @ ''_'' @ randomId env;
          train =
            \<lparr> t_id = trainId,
              t_number = orString (p_number trainData) (''T'' @ showNat (length (trains s) + 1)),
              t_status = Arriving,
              t_locationNodeId = ''E1'',
              t_orientation = East,
              t_fitness =
                orNumber (p_fitness trainData) (real_of_int \<lfloor>randomFitness env * 100\<rfloor>),
              t_mileage =
                orNumber (p_mileage trainData) (real_of_int \<lfloor>randomMileage env * 50000\<rfloor>),
              t_jobCard = (case p_jobCard trainData of None \<Rightarrow> [] | Some tasks \<Rightarrow> tasks),
              t_failures = (case p_failures trainData of None \<Rightarrow> [] | Some fs \<Rightarrow> fs),
              t_priority = orBool (p_priority trainData) False,
              t_departSoon = orBool (p_departSoon trainData) False,
              t_arrivalTime = now env,
              t_lastUpdated = now env \<rparr>;
          s = s\<lparr> trains := AList.update trainId train (trains s) \<rparr>;
          s = emitEvent (now env) TrainCreated trainId
                (''Train '' @ t_number train @ '' arrived at entry point'') Info s;
          s = setTimeout (CallAutoAssignToInspection trainId) 2000 s
      in (trainId, s))"

definition assignTrainToInspection :: "Env \<Rightarrow> string \<Rightarrow> string \<Rightarrow> YardState \<Rightarrow> YardState" where
  "assignTrainToInspection env trainId bayId s =
     (case (map_of (trains s) trainId, map_of (inspectionBays s) bayId) of
        (Some train, Some bay) \<Rightarrow>
          if b_status bay \<noteq> BayFree then s
          else
            (let train = train\<lparr> t_status := Inspection, t_locationNodeId := bayId,
                                t_lastUpdated := now env \<rparr>;
                 bay = bay\<lparr> b_status := BayOccupied, b_occupiedBy := Some trainId,
                            b_inspectionStartTime := Some (now env) \<rparr>;
                 s = s\<lparr> trains := AList.update trainId train (trains s),
                        inspectionBays := AList.update bayId bay (inspectionBays s) \<rparr>;
                 s = emitEvent (now env) TrainMoved trainId
                       (''Train '' @ t_number train @ '' moved to '' @ b_name bay
                          @ '' for inspection'') Info s
             in setTimeout (CallCompleteInspection trainId bayId)
                  (b_inspectionDuration bay * simulationSpeed s) s)
      | _ \<Rightarrow> s)"

text \<open>
  The \<open>find\<close> of \<open>autoAssignToInspection\<close> over the bay ids of the definition: reading
  the status of a bay the registry does not hold raises (\<open>None\<close>); otherwise the result
  is the first free bay, if any.
\<close>

fun findFreeBay :: "(string \<times> InspectionBay) list \<Rightarrow> string list \<Rightarrow> string option option" where
  "findFreeBay bays [] = Some None"
| "findFreeBay bays (bayId # rest) =
     (case map_of bays bayId of
        None \<Rightarrow> None
      | Some bay \<Rightarrow> if b_status bay = BayFree then Some (Some bayId) else findFreeBay bays rest)"

definition autoAssignToInspection ::
  "YardDefinition \<Rightarrow> Env \<Rightarrow> string \<Rightarrow> YardState \<Rightarrow> YardState option" where
  "autoAssignToInspection def env trainId s =
     (case map_of (trains s) trainId of
        None \<Rightarrow> Some s
      | Some train \<Rightarrow>
          if t_status train \<noteq> Arriving then Some s
          else
            (case findFreeBay (inspectionBays s) (d_inspectionBays def) of
               None \<Rightarrow> None
             | Some availableBay \<Rightarrow>
                 if truthy availableBay
                 then Some (assignTrainToInspection env trainId (the availableBay) s)
                 else
                   (let train = train\<lparr> t_status := Queued \<rparr>;
                        s = s\<lparr> trains := AList.update trainId train (trains s) \<rparr>
                    in Some (emitEvent (now env) TrainUpdated trainId
                         (''Train '' @ t_number train
                            @ '' queued - all inspection bays occupied'') Warning s))))"

definition processQueuedTrains :: "YardDefinition \<Rightarrow> Env \<Rightarrow> YardState \<Rightarrow> YardState option" where
  "processQueuedTrains def env s =
     (let queuedTrains = filter (\<lambda>train. t_status train = Queued) (map snd (trains s))
      in fold (\<lambda>train acc. Option.bind acc (autoAssignToInspection def env (t_id train)))
           queuedTrains (Some s))"

definition assignTrainToSiding ::
  "Env \<Rightarrow> string \<Rightarrow> string \<Rightarrow> SlotLetter option \<Rightarrow> YardState \<Rightarrow> YardState" where
  "assignTrainToSiding env trainId slotId slot s =
     (case (map_of (trains s) trainId, map_of (sidingSlots s) slotId) of
        (Some train, Some sidingSlot) \<Rightarrow>
          if truthy (s_occupiedBy sidingSlot) then s
          else
            (let train = train\<lparr> t_status := Parked, t_locationNodeId := slotId,
                                t_lastUpdated := now env \<rparr>;
                 sidingSlot = sidingSlot\<lparr> s_occupiedBy := Some trainId \<rparr>;
                 s = s\<lparr> trains := AList.update trainId train (trains s),
                        sidingSlots := AList.update slotId sidingSlot (sidingSlots s) \<rparr>
             in emitEvent (now env) TrainMoved trainId
                  (''Train '' @ t_number train @ '' parked in '' @ s_sidingId sidingSlot
                     @ ''-'' @ slotLetter (s_slot sidingSlot)) Success s)
      | _ \<Rightarrow> s)"

definition assignTrainToWorkshop :: "Env \<Rightarrow> string \<Rightarrow> string \<Rightarrow> YardState \<Rightarrow> YardState" where
  "assignTrainToWorkshop env trainId workshopId s =
     (case (map_of (trains s) trainId, map_of (workshopLines s) workshopId) of
        (Some train, Some workshop) \<Rightarrow>
          if truthy (w_occupiedBy workshop) then s
          else
            (let train = train\<lparr> t_status := Workshop, t_locationNodeId := workshopId,
                                t_lastUpdated := now env \<rparr>;
                 workshop = workshop\<lparr> w_status := LineOccupied, w_occupiedBy := Some trainId \<rparr>;
                 s = s\<lparr> trains := AList.update trainId train (trains s),
                        workshopLines := AList.update workshopId workshop (workshopLines s) \<rparr>;
                 s = emitEvent (now env) TrainMoved trainId
                       (''Train '' @ t_number train @ '' sent to '' @ w_name workshop) Info s
             in setTimeout (CallCompleteWorkshop trainId workshopId)
                  (10000 * simulationSpeed s) s)
      | _ \<Rightarrow> s)"

text \<open>
  After a completion the best recommendation, if there is one, is committed by a timer.
\<close>

definition scheduleBest ::
  "(AssignmentRecommendation \<Rightarrow> Timer) \<Rightarrow> AssignmentRecommendation list \<Rightarrow> YardState
     \<Rightarrow> YardState" where
  "scheduleBest callback recommendations s =
     (case recommendations of
        [] \<Rightarrow> s
      | bestRecommendation # _ \<Rightarrow> setTimeout (callback bestRecommendation) 1000 s)"

text \<open>
  \<open>completeInspection\<close> in two parts: \<open>completeInspectionBody\<close> is what the method
  does between its guard and its last statement, the call of \<open>processQueuedTrains\<close>.
\<close>

definition completeInspectionBody ::
  "Env \<Rightarrow> string \<Rightarrow> string \<Rightarrow> Train \<Rightarrow> InspectionBay \<Rightarrow> YardState \<Rightarrow> YardState" where
  "completeInspectionBody env trainId bayId train bay s =
     (let passRate = (if length (t_failures train) > 0 then 0.3 else 0.8);
          inspectionPassed = (randomPass env < passRate);
          bay = bay\<lparr> b_status := BayFree, b_occupiedBy := None,
                     b_inspectionStartTime := None \<rparr>;
          train = train\<lparr> t_status := Moving, t_lastUpdated := now env \<rparr>;
          s = s\<lparr> trains := AList.update trainId train (trains s),
                 inspectionBays := AList.update bayId bay (inspectionBays s) \<rparr>;
          s = emitEvent (now env) InspectionResult trainId
                (''Train '' @ t_number train @ '' inspection ''
                   @ (if inspectionPassed then ''passed'' else ''failed''))
                (if inspectionPassed then Success else Warning) s
      in if inspectionPassed
         then
           (let recommendations = generateSidingRecommendations s trainId;
                s = emitEvent (now env) PlanPreview trainId
                      (''Generated '' @ showNat (length recommendations)
                         @ '' siding recommendations for train '' @ t_number train)
                      Info s
            in if \<not> t_priority train \<and> \<not> t_departSoon train
               then scheduleBest
                      (\<lambda>r. CallAssignTrainToSiding trainId (r_targetId r) (r_slot r))
                      recommendations s
               else s)
         else
           (let recommendations = generateWorkshopRecommendations s trainId;
                s = emitEvent (now env) PlanPreview trainId
                      (''Generated '' @ showNat (length recommendations)
                         @ '' workshop recommendations for train '' @ t_number train)
                      Info s
            in scheduleBest (\<lambda>r. CallAssignTrainToWorkshop trainId (r_targetId r))
                 recommendations s))"

definition completeInspection ::
  "YardDefinition \<Rightarrow> Env \<Rightarrow> string \<Rightarrow> string \<Rightarrow> YardState \<Rightarrow> YardState option" where
  "completeInspection def env trainId bayId s =
     (case (map_of (trains s) trainId, map_of (inspectionBays s) bayId) of
        (Some train, Some bay) \<Rightarrow>
          if b_occupiedBy bay \<noteq> Some trainId then Some s
          else processQueuedTrains def env (completeInspectionBody env trainId bayId train bay s)
      | _ \<Rightarrow> Some s)"

definition completeWorkshop :: "Env \<Rightarrow> string \<Rightarrow> string \<Rightarrow> YardState \<Rightarrow> YardState" where
  "completeWorkshop env trainId workshopId s =
     (case (map_of (trains s) trainId, map_of (workshopLines s) workshopId) of
        (Some train, Some workshop) \<Rightarrow>
          if w_occupiedBy workshop \<noteq> Some trainId then s
          else
            (let train = train\<lparr> t_failures := [], t_fitness := min 100 (t_fitness train + 20),
                                t_status := Moving, t_lastUpdated := now env \<rparr>;
                 workshop = workshop\<lparr> w_status := LineFree, w_occupiedBy := None \<rparr>;
                 s = s\<lparr> trains := AList.update trainId train (trains s),
                        workshopLines := AList.update workshopId workshop (workshopLines s) \<rparr>;
                 s = emitEvent (now env) WorkshopUpdated trainId
                       (''Train '' @ t_number train @ '' repairs completed at ''
                          @ w_name workshop) Success s;
                 recommendations = generateSidingRecommendations s trainId;
                 s = emitEvent (now env) PlanPreview trainId
                       (''Generated '' @ showNat (length recommendations)
                          @ '' siding recommendations after repair'') Info s
             in scheduleBest (\<lambda>r. CallAssignTrainToSiding trainId (r_targetId r) (r_slot r))
                  recommendations s)
      | _ \<Rightarrow> s)"

definition emptyTrainData :: PartialTrain where
  "emptyTrainData =
     \<lparr> p_number = None, p_fitness = None, p_mileage = None, p_jobCard = None,
       p_failures = None, p_priority = None, p_departSoon = None \<rparr>"

definition processCommand :: "Env \<Rightarrow> SimulatorCommand \<Rightarrow> YardState \<Rightarrow> YardState" where
  "processCommand env command s =
     (case c_type command of
        CreateTrain \<Rightarrow>
          snd (enqueueTrain env
                 (case c_data command of None \<Rightarrow> emptyTrainData | Some d \<Rightarrow> cd_train d) s)
      | AssignTrain \<Rightarrow>
          (case c_data command of
             None \<Rightarrow> s
           | Some d \<Rightarrow>
               if truthy (c_trainId command)
               then
                 (if cd_targetType d = Some ''siding''
                  then assignTrainToSiding env (the (c_trainId command)) (cd_targetId d)
                         (cd_slot d) s
                  else if cd_targetType d = Some ''workshop''
                  then assignTrainToWorkshop env (the (c_trainId command)) (cd_targetId d) s
                  else s)
               else s)
      | SpeedChange \<Rightarrow>
          (case c_data command of
             None \<Rightarrow> s
           | Some d \<Rightarrow>
               (case cd_speed d of
                  None \<Rightarrow> s
                | Some speed \<Rightarrow>
                    if speed \<noteq> 0 then s\<lparr> simulationSpeed := max 0.1 (min 10 speed) \<rparr> else s))
      | _ \<Rightarrow> s)"

text \<open>
  A pending timer fires: it leaves the queue and its callback runs. The delays are
  recorded but do not order the firings, so every order of the pending timers is a run
  of the model.
\<close>

definition runTimer :: "YardDefinition \<Rightarrow> Env \<Rightarrow> Timer \<Rightarrow> YardState \<Rightarrow> YardState option" where
  "runTimer def env callback s =
     (case callback of
        CallAutoAssignToInspection trainId \<Rightarrow> autoAssignToInspection def env trainId s
      | CallCompleteInspection trainId bayId \<Rightarrow> completeInspection def env trainId bayId s
      | CallAssignTrainToSiding trainId slotId slot \<Rightarrow>
          Some (assignTrainToSiding env trainId slotId slot s)
      | CallAssignTrainToWorkshop trainId workshopId \<Rightarrow>
          Some (assignTrainToWorkshop env trainId workshopId s)
      | CallCompleteWorkshop trainId workshopId \<Rightarrow>
          Some (completeWorkshop env trainId workshopId s))"

definition fire :: "YardDefinition \<Rightarrow> Env \<Rightarrow> nat \<Rightarrow> YardState \<Rightarrow> YardState option" where
  "fire def env i s =
     (if i < length (pending s)
      then runTimer def env (snd (pending s ! i))
             (s\<lparr> pending := take i (pending s) @ drop (Suc i) (pending s) \<rparr>)
      else Some s)"

text \<open>
  The states of a simulator built from \<open>def\<close>: the constructor's state, and every state
  reached from it by a command, by a call of a public method, or by a pending timer.
\<close>

inductive reachable :: "YardDefinition \<Rightarrow> YardState \<Rightarrow> bool" for "def" :: YardDefinition where
  constructed: "initializeState def dateNow = Some s \<Longrightarrow> reachable def s"
| command: "reachable def s \<Longrightarrow> reachable def (processCommand env cmd s)"
| enqueued: "reachable def s \<Longrightarrow> reachable def (snd (enqueueTrain env trainData s))"
| to_siding: "reachable def s \<Longrightarrow> reachable def (assignTrainToSiding env trainId slotId slot s)"
| to_workshop: "reachable def s \<Longrightarrow> reachable def (assignTrainToWorkshop env trainId lineId s)"
| fired: "reachable def s \<Longrightarrow> fire def env i s = Some s' \<Longrightarrow> reachable def s'"


section \<open>Notions the properties are stated with\<close>







definition lineOccupant :: "YardState \<Rightarrow> string \<Rightarrow> string option option" where
  "lineOccupant s lineId = map_option w_occupiedBy (map_of (workshopLines s) lineId)"

definition bayOccupant :: "YardState \<Rightarrow> string \<Rightarrow> string option option" where
  "bayOccupant s bayId = map_option b_occupiedBy (map_of (inspectionBays s) bayId)"


definition statusOf :: "YardState \<Rightarrow> string \<Rightarrow> TrainStatus option" where
  "statusOf s trainId = map_option t_status (map_of (trains s) trainId)"



text \<open>
  What the engine keeps of it: a train is at the entry node or at the node of a
  registered resource, and whoever a resource records is a registered train.
\<close>

definition resourceIds :: "YardState \<Rightarrow> string list" where
  "resourceIds s =
     map fst (inspectionBays s) @ map fst (workshopLines s) @ map fst (sidingSlots s)"




text \<open>
  Facts of every reachable state that the proofs use. The registries have distinct keys;
  the id of a train is its key and is not empty; a train is at the entry node or at a
  registered resource; whoever a resource records is a registered train; each workshop
  line is stored under its own id and is specialized exactly when that id is \<open>WL4\<close>.
\<close>

definition keyed :: "YardState \<Rightarrow> bool" where
  "keyed s =
     (distinct (map fst (trains s))
      \<and> (\<forall>k train. map_of (trains s) k = Some train \<longrightarrow> t_id train = k \<and> k \<noteq> []))"

definition placed :: "YardState \<Rightarrow> bool" where
  "placed s =
     (\<forall>k train. map_of (trains s) k = Some train \<longrightarrow>
        t_locationNodeId train = ''E1'' \<or> t_locationNodeId train \<in> set (resourceIds s))"

definition manned :: "YardState \<Rightarrow> bool" where
  "manned s =
     (distinct (map fst (inspectionBays s)) \<and> distinct (map fst (sidingSlots s))
      \<and> (\<forall>k bay x. map_of (inspectionBays s) k = Some bay \<longrightarrow> b_occupiedBy bay = Some x
            \<longrightarrow> map_of (trains s) x \<noteq> None)
      \<and> (\<forall>k line x. map_of (workshopLines s) k = Some line \<longrightarrow> w_occupiedBy line = Some x
            \<longrightarrow> map_of (trains s) x \<noteq> None)
      \<and> (\<forall>k slot x. map_of (sidingSlots s) k = Some slot \<longrightarrow> s_occupiedBy slot = Some x
            \<longrightarrow> map_of (trains s) x \<noteq> None))"

definition linesFixed :: "YardState \<Rightarrow> bool" where
  "linesFixed s =
     (distinct (map fst (workshopLines s))
      \<and> (\<forall>k line. map_of (workshopLines s) k = Some line \<longrightarrow>
            w_id line = k \<and> (w_specialization line = Some ''wheel-alignment'') = (k = ''WL4'')))"

definition consistent :: "YardState \<Rightarrow> bool" where
  "consistent s = (keyed s \<and> placed s \<and> manned s \<and> linesFixed s)"

text \<open>
  Every inspection bay of the definition is in the registry, so that
  \<open>autoAssignToInspection\<close> can read its status.
\<close>

definition baysRegistered :: "YardDefinition \<Rightarrow> YardState \<Rightarrow> bool" where
  "baysRegistered def s =
     (\<forall>bayId \<in> set (d_inspectionBays def). map_of (inspectionBays s) bayId \<noteq> None)"

text \<open>
  A train that is past its arrival and a bay that does not record it: what a completed
  inspection leaves behind, and what the re-evaluation of queued trains cannot undo.
\<close>

definition released :: "string \<Rightarrow> string \<Rightarrow> YardState \<Rightarrow> bool" where
  "released trainId bayId s =
     (statusOf s trainId \<noteq> Some Arriving \<and> bayOccupant s bayId \<noteq> Some (Some trainId))"

section \<open>A small yard and a run\<close>

text \<open>
  One inspection bay, two workshop lines, two siding slots. In the run two trains are
  created half a second apart, the first with a wheel-alignment failure. Their timers
  fire after two seconds each: the first train enters the bay, the second finds it
  taken. Five minutes later the inspection of the first train completes (and fails), and a
  second later the train is sent to the workshop line the recommendation names. The states of
  the run are written out, \<open>run0\<close> to \<open>run6\<close>.
\<close>

definition smallYard :: YardDefinition where
  "smallYard =
     \<lparr> d_nodes = map_of
         [(''IL1'', \<lparr> n_label = Some ''IL-1'', n_metadata = None \<rparr>),
          (''WL1'', \<lparr> n_label = None, n_metadata = None \<rparr>),
          (''WL4'', \<lparr> n_label = Some ''WL-4'', n_metadata = None \<rparr>),
          (''S1a'', \<lparr> n_label = None, n_metadata =
              Some \<lparr> m_sidingId = ''S1'', m_slot = SlotA, m_reverseCost = Some 1 \<rparr> \<rparr>),
          (''S9b'', \<lparr> n_label = None, n_metadata =
              Some \<lparr> m_sidingId = ''S9'', m_slot = SlotB, m_reverseCost = Some 2 \<rparr> \<rparr>)],
       d_inspectionBays = [''IL1''],
       d_workshopLines = [''WL1'', ''WL4''],
       d_sidingSlots = [''S1a'', ''S9b''] \<rparr>"

definition envAt :: "nat \<Rightarrow> string \<Rightarrow> real \<Rightarrow> Env" where
  "envAt t suffix u =
     \<lparr> now = t, randomId = suffix, randomFitness = u, randomMileage = u, randomPass = u \<rparr>"

definition wheelData :: PartialTrain where
  "wheelData = emptyTrainData \<lparr> p_failures := Some [''wheel-alignment''] \<rparr>"

definition trainA :: "TrainStatus \<Rightarrow> string \<Rightarrow> nat \<Rightarrow> Train" where
  "trainA status location updated =
     \<lparr> t_id = ''train_2000_abc'', t_number = ''T1'', t_status = status,
       t_locationNodeId = location, t_orientation = East, t_fitness = 50, t_mileage = 25000,
       t_jobCard = [], t_failures = [''wheel-alignment''], t_priority = False,
       t_departSoon = False, t_arrivalTime = 2000, t_lastUpdated = updated \<rparr>"

definition trainB :: "TrainStatus \<Rightarrow> Train" where
  "trainB status =
     \<lparr> t_id = ''train_2500_def'', t_number = ''T2'', t_status = status,
       t_locationNodeId = ''E1'', t_orientation = East, t_fitness = 50, t_mileage = 25000,
       t_jobCard = [], t_failures = [], t_priority = False, t_departSoon = False,
       t_arrivalTime = 2500, t_lastUpdated = 2500 \<rparr>"

definition bayIL1 :: "BayStatus \<Rightarrow> string option \<Rightarrow> nat option \<Rightarrow> InspectionBay" where
  "bayIL1 status occupant started =
     \<lparr> b_id = ''IL1'', b_name = ''IL-1'', b_nodeId = ''IL1'', b_occupiedBy = occupant,
       b_inspectionStartTime = started, b_inspectionDuration = 300000, b_status = status \<rparr>"

definition lineWL1 :: WorkshopLine where
  "lineWL1 =
     \<lparr> w_id = ''WL1'', w_name = ''WL-1'', w_nodeId = ''WL1'', w_occupiedBy = None,
       w_specialization = None, w_capacity = 1, w_status = LineFree \<rparr>"

definition lineWL4 :: "LineStatus \<Rightarrow> string option \<Rightarrow> WorkshopLine" where
  "lineWL4 status occupant =
     \<lparr> w_id = ''WL4'', w_name = ''WL-4'', w_nodeId = ''WL4'', w_occupiedBy = occupant,
       w_specialization = Some ''wheel-alignment'', w_capacity = 1, w_status = status \<rparr>"

definition smallSlots :: "(string \<times> SidingSlot) list" where
  "smallSlots =
     [(''S1a'', \<lparr> s_id = ''S1a'', s_sidingId = ''S1'', s_slot = SlotA, s_occupiedBy = None,
                 s_reverseCost = Some 1, s_blockingRisk = Some High \<rparr>),
      (''S9b'', \<lparr> s_id = ''S9b'', s_sidingId = ''S9'', s_slot = SlotB, s_occupiedBy = None,
                 s_reverseCost = Some 2, s_blockingRisk = Some Medium \<rparr>)]"

definition logged :: "nat \<Rightarrow> EventType \<Rightarrow> string \<Rightarrow> string \<Rightarrow> Severity \<Rightarrow> YardEvent" where
  "logged t ty trainId message severity =
     \<lparr> e_timestamp = t, e_type = ty, e_trainId = Some trainId, e_message = message,
       e_severity = severity \<rparr>"

definition runLog :: "YardEvent list" where
  "runLog =
     [logged 2000 TrainCreated ''train_2000_abc'' ''Train T1 arrived at entry point'' Info,
      logged 2500 TrainCreated ''train_2500_def'' ''Train T2 arrived at entry point'' Info,
      logged 4000 TrainMoved ''train_2000_abc'' ''Train T1 moved to IL-1 for inspection'' Info,
      logged 4500 TrainUpdated ''train_2500_def''
        ''Train T2 queued - all inspection bays occupied'' Warning,
      logged 304000 InspectionResult ''train_2000_abc'' ''Train T1 inspection failed'' Warning,
      logged 304000 PlanPreview ''train_2000_abc''
        ''Generated 1 workshop recommendations for train T1'' Info,
      logged 305000 TrainMoved ''train_2000_abc'' ''Train T1 sent to WL-4'' Info]"

definition runState ::
  "(string \<times> Train) list \<Rightarrow> InspectionBay \<Rightarrow> WorkshopLine \<Rightarrow> nat \<Rightarrow> (real \<times> Timer) list
     \<Rightarrow> YardState" where
  "runState registered bay line events timers =
     \<lparr> trains = registered,
       inspectionBays = [(''IL1'', bay)],
       workshopLines = [(''WL1'', lineWL1), (''WL4'', line)],
       sidingSlots = smallSlots,
       eventLog = take events runLog,
       simulationSpeed = 1,
       lastUpdate = 1000,
       pending = timers \<rparr>"

definition run0 :: YardState where
  "run0 = runState [] (bayIL1 BayFree None None) (lineWL4 LineFree None) 0 []"

definition run1 :: YardState where
  "run1 =
     runState [(''train_2000_abc'', trainA Arriving ''E1'' 2000)]
       (bayIL1 BayFree None None) (lineWL4 LineFree None) 1
       [(2000, CallAutoAssignToInspection ''train_2000_abc'')]"

definition run2 :: YardState where
  "run2 =
     runState
       [(''train_2000_abc'', trainA Arriving ''E1'' 2000), (''train_2500_def'', trainB Arriving)]
       (bayIL1 BayFree None None) (lineWL4 LineFree None) 2
       [(2000, CallAutoAssignToInspection ''train_2000_abc''),
        (2000, CallAutoAssignToInspection ''train_2500_def'')]"

definition run3 :: YardState where
  "run3 =
     runState
       [(''train_2000_abc'', trainA Inspection ''IL1'' 4000),
        (''train_2500_def'', trainB Arriving)]
       (bayIL1 BayOccupied (Some ''train_2000_abc'') (Some 4000)) (lineWL4 LineFree None) 3
       [(2000, CallAutoAssignToInspection ''train_2500_def''),
        (300000, CallCompleteInspection ''train_2000_abc'' ''IL1'')]"

definition run4 :: YardState where
  "run4 =
     runState
       [(''train_2000_abc'', trainA Inspection ''IL1'' 4000), (''train_2500_def'', trainB Queued)]
       (bayIL1 BayOccupied (Some ''train_2000_abc'') (Some 4000)) (lineWL4 LineFree None) 4
       [(300000, CallCompleteInspection ''train_2000_abc'' ''IL1'')]"

definition run5 :: YardState where
  "run5 =
     runState
       [(''train_2000_abc'', trainA Moving ''IL1'' 304000), (''train_2500_def'', trainB Queued)]
       (bayIL1 BayFree None None) (lineWL4 LineFree None) 6
       [(1000, CallAssignTrainToWorkshop ''train_2000_abc'' ''WL4'')]"

definition run6 :: YardState where
  "run6 =
     runState
       [(''train_2000_abc'', trainA Workshop ''WL4'' 305000), (''train_2500_def'', trainB Queued)]
       (bayIL1 BayFree None None) (lineWL4 LineOccupied (Some ''train_2000_abc'')) 7
       [(10000, CallCompleteWorkshop ''train_2000_abc'' ''WL4'')]"




text \<open>
  The state after \<open>completeInspection\<close> is called on \<open>run4\<close> directly (its timer stays
  in the queue), and the state after \<open>completeWorkshop\<close> is called on \<open>run6\<close>.
\<close>

definition run5direct :: YardState where
  "run5direct = run5 \<lparr> pending := pending run4 @ pending run5 \<rparr>"

definition run7direct :: YardState where
  "run7direct =
     runState
       [(''train_2000_abc'', (trainA Moving ''WL4'' 315000) \<lparr> t_failures := [], t_fitness := 70 \<rparr>),
        (''train_2500_def'', trainB Queued)]
       (bayIL1 BayFree None None) (lineWL4 LineFree None) 7
       [(10000, CallCompleteWorkshop ''train_2000_abc'' ''WL4''),
        (1000, CallAssignTrainToSiding ''train_2000_abc'' ''S9b'' (Some SlotB))]
     \<lparr> eventLog := runLog @
         [logged 315000 WorkshopUpdated ''train_2000_abc'' ''Train T1 repairs completed at WL-4''
            Success,
          logged 315000 PlanPreview ''train_2000_abc''
            ''Generated 2 siding recommendations after repair'' Info] \<rparr>"



section \<open>Properties\<close>

subsection \<open>Events and timers leave the registries alone\<close>

lemma emitEvent_fields [simp]:
  "trains (emitEvent t ty x m sev s) = trains s"
  "inspectionBays (emitEvent t ty x m sev s) = inspectionBays s"
  "workshopLines (emitEvent t ty x m sev s) = workshopLines s"
  "sidingSlots (emitEvent t ty x m sev s) = sidingSlots s"
  "simulationSpeed (emitEvent t ty x m sev s) = simulationSpeed s"
  "pending (emitEvent t ty x m sev s) = pending s"
  "length (eventLog (emitEvent t ty x m sev s)) = Suc (length (eventLog s))"
  by (simp_all add: emitEvent_def)

lemma setTimeout_fields [simp]:
  "trains (setTimeout cb d s) = trains s"
  "inspectionBays (setTimeout cb d s) = inspectionBays s"
  "workshopLines (setTimeout cb d s) = workshopLines s"
  "sidingSlots (setTimeout cb d s) = sidingSlots s"
  "simulationSpeed (setTimeout cb d s) = simulationSpeed s"
  "eventLog (setTimeout cb d s) = eventLog s"
  by (simp_all add: setTimeout_def)

lemma scheduleBest_fields [simp]:
  "trains (scheduleBest f recs s) = trains s"
  "inspectionBays (scheduleBest f recs s) = inspectionBays s"
  "workshopLines (scheduleBest f recs s) = workshopLines s"
  "sidingSlots (scheduleBest f recs s) = sidingSlots s"
  "simulationSpeed (scheduleBest f recs s) = simulationSpeed s"
  "eventLog (scheduleBest f recs s) = eventLog s"
  by (simp_all add: scheduleBest_def split: list.splits)

lemmas upd = update_conv' distinct_update dom_update Let_def

subsection \<open>The operations keep the state consistent\<close>

lemma keyed_enqueueTrain: "keyed s \<Longrightarrow> keyed (snd (enqueueTrain env d s))"
  by (auto simp: keyed_def enqueueTrain_def upd split: if_splits simp del: map_of_eq_Some_iff)

lemma placed_enqueueTrain: "placed s \<Longrightarrow> placed (snd (enqueueTrain env d s))"
  by (auto simp: placed_def resourceIds_def enqueueTrain_def upd split: if_splits
      simp del: map_of_eq_Some_iff)

lemma manned_enqueueTrain: "manned s \<Longrightarrow> manned (snd (enqueueTrain env d s))"
  by (auto simp: manned_def enqueueTrain_def upd split: if_splits simp del: map_of_eq_Some_iff)

lemma linesFixed_enqueueTrain: "linesFixed s \<Longrightarrow> linesFixed (snd (enqueueTrain env d s))"
  by (simp add: linesFixed_def enqueueTrain_def upd)

lemma consistent_enqueueTrain: "consistent s \<Longrightarrow> consistent (snd (enqueueTrain env d s))"
  by (simp add: consistent_def keyed_enqueueTrain placed_enqueueTrain manned_enqueueTrain
      linesFixed_enqueueTrain)

lemma consistent_assignTrainToInspection:
  assumes "consistent s"
  shows "consistent (assignTrainToInspection env trainId bayId s)"
proof -
  have "keyed (assignTrainToInspection env trainId bayId s)"
    using assms
    by (auto simp: consistent_def keyed_def assignTrainToInspection_def upd
        split: option.splits if_splits simp del: map_of_eq_Some_iff)
  moreover have "placed (assignTrainToInspection env trainId bayId s)"
    using assms
    by (auto simp: consistent_def placed_def resourceIds_def assignTrainToInspection_def upd
        split: option.splits if_splits simp del: map_of_eq_Some_iff
        dest: map_of_SomeD intro: rev_image_eqI)
  moreover have "manned (assignTrainToInspection env trainId bayId s)"
    using assms
    by (auto simp: consistent_def manned_def assignTrainToInspection_def upd
        split: option.splits if_splits simp del: map_of_eq_Some_iff)
  moreover have "linesFixed (assignTrainToInspection env trainId bayId s)"
    using assms
    by (auto simp: consistent_def linesFixed_def assignTrainToInspection_def upd
        split: option.splits if_splits simp del: map_of_eq_Some_iff)
  ultimately show ?thesis by (simp add: consistent_def)
qed

lemma consistent_assignTrainToSiding:
  assumes "consistent s"
  shows "consistent (assignTrainToSiding env trainId slotId slot s)"
proof -
  have "keyed (assignTrainToSiding env trainId slotId slot s)"
    using assms
    by (auto simp: consistent_def keyed_def assignTrainToSiding_def upd
        split: option.splits if_splits simp del: map_of_eq_Some_iff)
  moreover have "placed (assignTrainToSiding env trainId slotId slot s)"
    using assms
    by (auto simp: consistent_def placed_def resourceIds_def assignTrainToSiding_def upd
        split: option.splits if_splits simp del: map_of_eq_Some_iff
        dest: map_of_SomeD intro: rev_image_eqI)
  moreover have "manned (assignTrainToSiding env trainId slotId slot s)"
    using assms
    by (auto simp: consistent_def manned_def assignTrainToSiding_def upd
        split: option.splits if_splits simp del: map_of_eq_Some_iff)
  moreover have "linesFixed (assignTrainToSiding env trainId slotId slot s)"
    using assms
    by (auto simp: consistent_def linesFixed_def assignTrainToSiding_def upd
        split: option.splits if_splits simp del: map_of_eq_Some_iff)
  ultimately show ?thesis by (simp add: consistent_def)
qed

lemma consistent_assignTrainToWorkshop:
  assumes "consistent s"
  shows "consistent (assignTrainToWorkshop env trainId lineId s)"
proof -
  have "keyed (assignTrainToWorkshop env trainId lineId s)"
    using assms
    by (auto simp: consistent_def keyed_def assignTrainToWorkshop_def upd
        split: option.splits if_splits simp del: map_of_eq_Some_iff)
  moreover have "placed (assignTrainToWorkshop env trainId lineId s)"
    using assms
    by (auto simp: consistent_def placed_def resourceIds_def assignTrainToWorkshop_def upd
        split: option.splits if_splits simp del: map_of_eq_Some_iff
        dest: map_of_SomeD intro: rev_image_eqI)
  moreover have "manned (assignTrainToWorkshop env trainId lineId s)"
    using assms
    by (auto simp: consistent_def manned_def assignTrainToWorkshop_def upd
        split: option.splits if_splits simp del: map_of_eq_Some_iff)
  moreover have "linesFixed (assignTrainToWorkshop env trainId lineId s)"
    using assms
    by (auto simp: consistent_def linesFixed_def assignTrainToWorkshop_def upd
        split: option.splits if_splits simp del: map_of_eq_Some_iff)
  ultimately show ?thesis by (simp add: consistent_def)
qed

lemma consistent_completeWorkshop:
  assumes "consistent s"
  shows "consistent (completeWorkshop env trainId lineId s)"
proof -
  have "keyed (completeWorkshop env trainId lineId s)"
    using assms
    by (auto simp: consistent_def keyed_def completeWorkshop_def upd
        split: option.splits if_splits simp del: map_of_eq_Some_iff)
  moreover have "placed (completeWorkshop env trainId lineId s)"
    using assms
    by (auto simp: consistent_def placed_def resourceIds_def completeWorkshop_def upd
        split: option.splits if_splits simp del: map_of_eq_Some_iff
        dest: map_of_SomeD intro: rev_image_eqI)
  moreover have "manned (completeWorkshop env trainId lineId s)"
    using assms
    by (auto simp: consistent_def manned_def completeWorkshop_def upd
        split: option.splits if_splits simp del: map_of_eq_Some_iff)
  moreover have "linesFixed (completeWorkshop env trainId lineId s)"
    using assms
    by (auto simp: consistent_def linesFixed_def completeWorkshop_def upd
        split: option.splits if_splits simp del: map_of_eq_Some_iff)
  ultimately show ?thesis by (simp add: consistent_def)
qed

lemma consistent_completeInspectionBody:
  assumes "consistent s" and "map_of (trains s) trainId = Some train"
    and "map_of (inspectionBays s) bayId = Some bay"
  shows "consistent (completeInspectionBody env trainId bayId train bay s)"
proof -
  have "keyed (completeInspectionBody env trainId bayId train bay s)"
    using assms
    by (auto simp: consistent_def keyed_def completeInspectionBody_def upd
        split: option.splits if_splits simp del: map_of_eq_Some_iff)
  moreover have "placed (completeInspectionBody env trainId bayId train bay s)"
    using assms
    by (auto simp: consistent_def placed_def resourceIds_def completeInspectionBody_def upd
        split: option.splits if_splits simp del: map_of_eq_Some_iff
        dest: map_of_SomeD intro: rev_image_eqI)
  moreover have "manned (completeInspectionBody env trainId bayId train bay s)"
    using assms
    by (auto simp: consistent_def manned_def completeInspectionBody_def upd
        split: option.splits if_splits simp del: map_of_eq_Some_iff)
  moreover have "linesFixed (completeInspectionBody env trainId bayId train bay s)"
    using assms
    by (auto simp: consistent_def linesFixed_def completeInspectionBody_def upd
        split: option.splits if_splits simp del: map_of_eq_Some_iff)
  ultimately show ?thesis by (simp add: consistent_def)
qed

lemma consistent_cong:
  assumes "trains s' = trains s" and "inspectionBays s' = inspectionBays s"
    and "workshopLines s' = workshopLines s" and "sidingSlots s' = sidingSlots s"
  shows "consistent s' = consistent s"
  by (simp add: consistent_def keyed_def placed_def manned_def linesFixed_def resourceIds_def
      assms)

lemma consistent_queued:
  assumes "consistent s" and "map_of (trains s) trainId = Some train"
  shows "consistent (emitEvent t ty x m sev
           (s\<lparr> trains := AList.update trainId (train\<lparr> t_status := Queued \<rparr>) (trains s) \<rparr>))"
proof -
  let ?s = "s\<lparr> trains := AList.update trainId (train\<lparr> t_status := Queued \<rparr>) (trains s) \<rparr>"
  have "keyed ?s"
    using assms by (auto simp: consistent_def keyed_def upd simp del: map_of_eq_Some_iff)
  moreover have "placed ?s"
    using assms
    by (auto simp: consistent_def placed_def resourceIds_def upd simp del: map_of_eq_Some_iff)
  moreover have "manned ?s"
    using assms by (auto simp: consistent_def manned_def upd simp del: map_of_eq_Some_iff)
  moreover have "linesFixed ?s"
    using assms by (auto simp: consistent_def linesFixed_def)
  ultimately have "consistent ?s"
    by (simp add: consistent_def)
  then show ?thesis
    by (simp add: consistent_cong [of "emitEvent t ty x m sev ?s" ?s])
qed

lemma consistent_autoAssignToInspection:
  assumes "consistent s" and "autoAssignToInspection def env trainId s = Some s'"
  shows "consistent s'"
  using assms
  by (auto simp: autoAssignToInspection_def Let_def consistent_assignTrainToInspection
      consistent_queued split: option.splits if_splits)

lemma fold_bind_None:
  "fold (\<lambda>x acc. Option.bind acc (f x)) xs None = None"
  by (induction xs) auto

lemma fold_bind_preserves:
  assumes "fold (\<lambda>x acc. Option.bind acc (f x)) xs (Some s) = Some s'" and "P s"
    and "\<And>x a b. P a \<Longrightarrow> f x a = Some b \<Longrightarrow> P b"
  shows "P s'"
  using assms
proof (induction xs arbitrary: s)
  case Nil
  then show ?case by simp
next
  case (Cons x xs)
  show ?case
  proof (cases "f x s")
    case None
    with Cons.prems(1) show ?thesis by (simp add: fold_bind_None)
  next
    case (Some b)
    with Cons.prems have "P b" by blast
    with Cons.IH [of b] Cons.prems(1,3) Some show ?thesis by simp
  qed
qed

lemma consistent_processQueuedTrains:
  assumes "consistent s" and "processQueuedTrains def env s = Some s'"
  shows "consistent s'"
  using assms(2) unfolding processQueuedTrains_def Let_def
  by (rule fold_bind_preserves) (use assms(1) consistent_autoAssignToInspection in blast)+

lemma consistent_completeInspection:
  assumes "consistent s" and "completeInspection def env trainId bayId s = Some s'"
  shows "consistent s'"
  using assms
  by (auto simp: completeInspection_def split: option.splits if_splits
      intro: consistent_processQueuedTrains consistent_completeInspectionBody)

lemma consistent_processCommand:
  assumes "consistent s"
  shows "consistent (processCommand env cmd s)"
proof (cases "c_type cmd")
  case SpeedChange
  have "consistent (s\<lparr> simulationSpeed := v \<rparr>)" for v
    using assms by (simp add: consistent_cong [of "s\<lparr> simulationSpeed := v \<rparr>" s])
  with SpeedChange assms show ?thesis
    by (simp add: processCommand_def split: option.splits)
qed (use assms in \<open>simp_all add: processCommand_def consistent_enqueueTrain
      consistent_assignTrainToSiding consistent_assignTrainToWorkshop split: option.splits\<close>)

lemma consistent_runTimer:
  assumes "consistent s" and "runTimer def env cb s = Some s'"
  shows "consistent s'"
  using assms
  by (cases cb)
    (auto simp: runTimer_def consistent_assignTrainToSiding consistent_assignTrainToWorkshop
      consistent_completeWorkshop
      intro: consistent_autoAssignToInspection consistent_completeInspection)

lemma consistent_fire:
  assumes "consistent s" and "fire def env i s = Some s'"
  shows "consistent s'"
proof (cases "i < length (pending s)")
  case True
  have "consistent (s\<lparr> pending := p \<rparr>)" for p
    using assms(1) by (simp add: consistent_cong [of "s\<lparr> pending := p \<rparr>" s])
  with True assms(2) show ?thesis
    by (auto simp: fire_def intro: consistent_runTimer)
next
  case False
  with assms show ?thesis by (simp add: fire_def)
qed

lemma forEachInto_registry:
  assumes "forEachInto f index ids acc = Some registry"
    and "distinct (map fst acc)"
    and "\<And>k v. map_of acc k = Some v \<Longrightarrow> Q k v"
    and "\<And>i k v. f i k = Some (Some v) \<Longrightarrow> Q k v"
  shows "distinct (map fst registry) \<and> (\<forall>k v. map_of registry k = Some v \<longrightarrow> Q k v)"
  using assms
proof (induction ids arbitrary: index acc)
  case Nil
  then show ?case by auto
next
  case (Cons nodeId rest)
  show ?case
  proof (cases "f index nodeId")
    case None
    with Cons.prems(1) show ?thesis by simp
  next
    case (Some produced)
    show ?thesis
    proof (cases produced)
      case None
      with Some Cons.prems(1) have "forEachInto f (Suc index) rest acc = Some registry"
        by simp
      from Cons.IH [OF this Cons.prems(2)] Cons.prems(3,4) show ?thesis by blast
    next
      case (Some v)
      with \<open>f index nodeId = Some produced\<close> Cons.prems(1)
      have run: "forEachInto f (Suc index) rest (AList.update nodeId v acc) = Some registry"
        by simp
      have "Q nodeId v"
        using Cons.prems(4) Some \<open>f index nodeId = Some produced\<close> by blast
      then have "\<And>k w. map_of (AList.update nodeId v acc) k = Some w \<Longrightarrow> Q k w"
        using Cons.prems(3) by (auto simp: update_conv' split: if_splits)
      from Cons.IH [OF run _ this] Cons.prems(2,4) show ?thesis
        by (simp add: distinct_update)
    qed
  qed
qed

lemma consistent_initializeState:
  assumes "initializeState def dateNow = Some s"
  shows "consistent s"
proof -
  from assms obtain bays lines slots where
    bays: "forEachInto (initBay def) 0 (d_inspectionBays def) [] = Some bays" and
    lines: "forEachInto (initLine def) 0 (d_workshopLines def) [] = Some lines" and
    slots: "forEachInto (initSlot def) 0 (d_sidingSlots def) [] = Some slots" and
    s: "s = \<lparr> trains = [], inspectionBays = bays, workshopLines = lines, sidingSlots = slots,
              eventLog = [], simulationSpeed = 1, lastUpdate = dateNow, pending = [] \<rparr>"
    by (auto simp: initializeState_def split: option.splits)
  have b: "distinct (map fst bays) \<and> (\<forall>k v. map_of bays k = Some v \<longrightarrow> b_occupiedBy v = None)"
    by (rule forEachInto_registry [OF bays])
      (auto simp: initBay_def split: option.splits)
  have l: "distinct (map fst lines) \<and> (\<forall>k v. map_of lines k = Some v \<longrightarrow>
      w_occupiedBy v = None \<and> w_id v = k
      \<and> (w_specialization v = Some ''wheel-alignment'') = (k = ''WL4''))"
    by (rule forEachInto_registry [OF lines])
      (auto simp: initLine_def Let_def split: option.splits if_splits)
  have sl: "distinct (map fst slots) \<and> (\<forall>k v. map_of slots k = Some v \<longrightarrow> s_occupiedBy v = None)"
    by (rule forEachInto_registry [OF slots])
      (auto simp: initSlot_def split: option.splits)
  from b l sl show ?thesis
    unfolding s consistent_def keyed_def placed_def manned_def linesFixed_def
    by (simp del: map_of_eq_Some_iff) 
qed

lemma reachable_consistent: "reachable def s \<Longrightarrow> consistent s"
proof (induction rule: reachable.induct)
  case (constructed dateNow s)
  then show ?case by (rule consistent_initializeState)
next
  case (command s env cmd)
  then show ?case by (simp add: consistent_processCommand)
next
  case (enqueued s env trainData)
  then show ?case by (simp add: consistent_enqueueTrain)
next
  case (to_siding s env trainId slotId slot)
  then show ?case by (simp add: consistent_assignTrainToSiding)
next
  case (to_workshop s env trainId lineId)
  then show ?case by (simp add: consistent_assignTrainToWorkshop)
next
  case (fired s env i s')
  then show ?case by (blast intro: consistent_fire)
qed

subsection \<open>Blocking risk (C8)\<close>

lemmas parse_defs = parseInt_def digitValue_def digitTable_def isWhiteSpace_def




subsection \<open>Siding score (C6, C7)\<close>







subsection \<open>The run\<close>

lemmas run_defs = runState_def trainA_def trainB_def bayIL1_def lineWL1_def lineWL4_def
  smallSlots_def runLog_def logged_def envAt_def smallYard_def wheelData_def emptyTrainData_def

lemmas value_defs = orString_def orNumber_def orBool_def truthy_def arrayIncludes_def
  digitChar_def nth_Cons' slotLetter_def showNat.simps

lemmas effect_defs = emitEvent_def setTimeout_def scheduleBest_def Let_def

lemmas score_defs = calculateSidingScore_def calculateWorkshopScore_def
  generateSidingReasoning_def generateSidingWarnings_def generateWorkshopReasoning_def
  sidingRecommendation_def workshopRecommendation_def generateSidingRecommendations_def
  generateWorkshopRecommendations_def sortByScore_def scoreBefore_def

lemma run_step0: "initializeState smallYard 1000 = Some run0"
  by (simp add: run0_def run_defs initializeState_def initBay_def initLine_def initSlot_def
      value_defs calculateBlockingRisk_def parse_defs)

lemma run_step1:
  "enqueueTrain (envAt 2000 ''abc'' (1 / 2)) wheelData run0 = (''train_2000_abc'', run1)"
  by (simp add: run0_def run1_def run_defs enqueueTrain_def value_defs effect_defs)

lemma run_step2:
  "enqueueTrain (envAt 2500 ''def'' (1 / 2)) emptyTrainData run1 = (''train_2500_def'', run2)"
  by (simp add: run1_def run2_def run_defs enqueueTrain_def value_defs effect_defs)

lemma run_step3: "fire smallYard (envAt 4000 [] (1 / 2)) 0 run2 = Some run3"
  by (simp add: run2_def run3_def run_defs fire_def runTimer_def autoAssignToInspection_def
      assignTrainToInspection_def value_defs effect_defs)

lemma run_step4: "fire smallYard (envAt 4500 [] (1 / 2)) 0 run3 = Some run4"
  by (simp add: run3_def run4_def run_defs fire_def runTimer_def autoAssignToInspection_def
      assignTrainToInspection_def value_defs effect_defs)

lemma run_step5: "fire smallYard (envAt 304000 [] (1 / 2)) 0 run4 = Some run5"
  by (simp add: run4_def run5_def run_defs fire_def runTimer_def completeInspection_def
      completeInspectionBody_def processQueuedTrains_def autoAssignToInspection_def
      score_defs value_defs effect_defs)


lemma reachable_run0: "reachable smallYard run0"
  using run_step0 by (rule reachable.constructed)

lemma reachable_run1: "reachable smallYard run1"
  using reachable.enqueued [OF reachable_run0, of "envAt 2000 ''abc'' (1 / 2)" wheelData]
  by (simp add: run_step1)

lemma reachable_run2: "reachable smallYard run2"
  using reachable.enqueued [OF reachable_run1, of "envAt 2500 ''def'' (1 / 2)" emptyTrainData]
  by (simp add: run_step2)

lemma reachable_run3: "reachable smallYard run3"
  using reachable_run2 run_step3 by (rule reachable.fired)

lemma reachable_run4: "reachable smallYard run4"
  using reachable_run3 run_step4 by (rule reachable.fired)

lemma reachable_run5: "reachable smallYard run5"
  using reachable_run4 run_step5 by (rule reachable.fired)


subsection \<open>What consistency gives\<close>






subsection \<open>Exclusive assignment (C1)\<close>







subsection \<open>Conservation (C2)\<close>




subsection \<open>Completion handlers (C3)\<close>

lemma released_autoAssignToInspection:
  assumes "released trainId bayId s" and "autoAssignToInspection def env other s = Some s'"
  shows "released trainId bayId s'"
proof (cases "other = trainId")
  case True
  with assms show ?thesis
    by (auto simp: released_def statusOf_def autoAssignToInspection_def split: option.splits)
next
  case False
  with assms show ?thesis
    by (auto simp: released_def statusOf_def bayOccupant_def autoAssignToInspection_def
        assignTrainToInspection_def update_conv' Let_def split: option.splits if_splits)
qed

lemma released_completeInspectionBody:
  "released trainId bayId (completeInspectionBody env trainId bayId train bay s)"
  by (simp add: released_def statusOf_def bayOccupant_def completeInspectionBody_def
      update_conv' Let_def)

lemma completeInspection_released:
  assumes "bayOccupant s bayId \<noteq> Some (Some trainId)"
  shows "completeInspection def env trainId bayId s = Some s"
  using assms by (auto simp: completeInspection_def bayOccupant_def split: option.splits)

lemma completeInspection_releases:
  assumes "completeInspection def env trainId bayId s = Some s'"
    and "map_of (trains s) trainId \<noteq> None"
  shows "bayOccupant s' bayId \<noteq> Some (Some trainId)"
proof (cases "bayOccupant s bayId = Some (Some trainId)")
  case True
  with assms(2) obtain train bay where
    "map_of (trains s) trainId = Some train" "map_of (inspectionBays s) bayId = Some bay"
    "b_occupiedBy bay = Some trainId"
    by (auto simp: bayOccupant_def)
  with assms(1) have
    "processQueuedTrains def env (completeInspectionBody env trainId bayId train bay s) = Some s'"
    by (simp add: completeInspection_def)
  then have "released trainId bayId s'"
    unfolding processQueuedTrains_def Let_def
    by (rule fold_bind_preserves)
      (use released_completeInspectionBody released_autoAssignToInspection in blast)+
  then show ?thesis
    by (simp add: released_def)
next
  case False
  with assms(1) show ?thesis
    by (simp add: completeInspection_released)
qed

lemma completeInspection_twice:
  assumes "completeInspection def env trainId bayId s = Some s'"
  shows "completeInspection def env' trainId bayId s' = Some s'"
proof (cases "map_of (trains s) trainId")
  case None
  with assms have "s' = s"
    by (simp add: completeInspection_def)
  with None show ?thesis
    by (simp add: completeInspection_def)
next
  case (Some train)
  with assms have "bayOccupant s' bayId \<noteq> Some (Some trainId)"
    by (simp add: completeInspection_releases)
  then show ?thesis
    by (rule completeInspection_released)
qed

lemma completeWorkshop_released:
  assumes "lineOccupant s lineId \<noteq> Some (Some trainId)"
  shows "completeWorkshop env trainId lineId s = s"
  using assms by (auto simp: completeWorkshop_def lineOccupant_def split: option.splits)

lemma completeWorkshop_releases:
  assumes "map_of (trains s) trainId \<noteq> None"
  shows "lineOccupant (completeWorkshop env trainId lineId s) lineId \<noteq> Some (Some trainId)"
  using assms
  by (auto simp: completeWorkshop_def lineOccupant_def update_conv' Let_def
      split: option.splits)

lemma completeWorkshop_twice:
  "completeWorkshop env' trainId lineId (completeWorkshop env trainId lineId s)
     = completeWorkshop env trainId lineId s"
proof (cases "map_of (trains s) trainId")
  case None
  then show ?thesis
    by (simp add: completeWorkshop_def)
next
  case (Some train)
  then show ?thesis
    by (simp add: completeWorkshop_releases completeWorkshop_released)
qed

text \<open>
  Claim C3: a second call of \<open>completeInspection\<close> for the same train and bay, in the
  state the first call returned, returns that state unchanged; the same holds for
  \<open>completeWorkshop\<close>. After the first call for a registered train the bay (the line) no
  longer records the train.
\<close>

theorem completion_idempotent:
  "(completeInspection def env trainId bayId s = Some s' \<longrightarrow>
      completeInspection def env' trainId bayId s' = Some s'
      \<and> (map_of (trains s) trainId \<noteq> None \<longrightarrow> bayOccupant s' bayId \<noteq> Some (Some trainId)))
   \<and> completeWorkshop env' trainId lineId (completeWorkshop env trainId lineId s)
        = completeWorkshop env trainId lineId s
   \<and> (map_of (trains s) trainId \<noteq> None \<longrightarrow>
        lineOccupant (completeWorkshop env trainId lineId s) lineId \<noteq> Some (Some trainId))"
  using completeInspection_twice [of "def" env trainId bayId s s' env']
    completeInspection_releases [of "def" env trainId bayId s s']
    completeWorkshop_twice [of env' trainId lineId env s]
    completeWorkshop_releases [of s trainId env lineId]
  by blast

text \<open>
  Claim C3, an instance: in \<open>run4\<close> the first call of \<open>completeInspection\<close> frees the bay
  and changes the state, the second changes nothing; in \<open>run6\<close> the first call of
  \<open>completeWorkshop\<close> changes the state, the second changes nothing.
\<close>

theorem completion_idempotent_witness:
  "completeInspection smallYard (envAt 304000 [] (1 / 2)) ''train_2000_abc'' ''IL1'' run4
     = Some run5direct
   \<and> run5direct \<noteq> run4
   \<and> completeInspection smallYard (envAt 304001 [] 0) ''train_2000_abc'' ''IL1'' run5direct
       = Some run5direct
   \<and> bayOccupant run5direct ''IL1'' = Some None
   \<and> completeWorkshop (envAt 315000 [] 0) ''train_2000_abc'' ''WL4'' run6 = run7direct
   \<and> run7direct \<noteq> run6
   \<and> completeWorkshop (envAt 315001 [] 0) ''train_2000_abc'' ''WL4'' run7direct = run7direct"
proof -
  have first:
    "completeInspection smallYard (envAt 304000 [] (1 / 2)) ''train_2000_abc'' ''IL1'' run4
       = Some run5direct"
    by (simp add: run5direct_def run4_def run5_def run_defs completeInspection_def
        completeInspectionBody_def processQueuedTrains_def autoAssignToInspection_def
        score_defs value_defs effect_defs)
  have repaired:
    "completeWorkshop (envAt 315000 [] 0) ''train_2000_abc'' ''WL4'' run6 = run7direct"
    by (simp add: run7direct_def run6_def run_defs completeWorkshop_def
        parse_defs score_defs value_defs effect_defs)
  have changed: "run5direct \<noteq> run4" "run7direct \<noteq> run6"
    "bayOccupant run5direct ''IL1'' = Some None"
    "map_of (trains run4) ''train_2000_abc'' \<noteq> None"
    by (auto simp: run5direct_def run7direct_def run4_def run5_def run6_def run_defs
        bayOccupant_def dest: arg_cong [where f = "\<lambda>s. length (eventLog s)"])
  show ?thesis
    using first repaired changed
      completion_idempotent [where s = run4 and s' = run5direct and def = smallYard
        and env = "envAt 304000 [] (1 / 2)" and env' = "envAt 304001 [] 0"
        and trainId = "''train_2000_abc''" and bayId = "''IL1''" and lineId = "''WL4''"]
      completion_idempotent [where s = run6 and s' = run6 and def = smallYard
        and env = "envAt 315000 [] 0" and env' = "envAt 315001 [] 0"
        and trainId = "''train_2000_abc''" and bayId = "''IL1''" and lineId = "''WL4''"]
    by simp
qed

subsection \<open>Queued trains are never taken up again\<close>

lemma fold_bind_idle:
  assumes "\<And>x. x \<in> set xs \<Longrightarrow> f x s = Some s"
  shows "fold (\<lambda>x acc. Option.bind acc (f x)) xs (Some s) = Some s"
  using assms by (induction xs) auto

lemma autoAssignToInspection_queued:
  assumes "map_of (trains s) trainId = Some train" and "t_status train = Queued"
  shows "autoAssignToInspection def env trainId s = Some s"
  using assms by (simp add: autoAssignToInspection_def)

lemma processQueuedTrains_idle:
  assumes "keyed s"
  shows "processQueuedTrains def env s = Some s"
  unfolding processQueuedTrains_def Let_def
proof (rule fold_bind_idle)
  fix train
  assume "train \<in> set (filter (\<lambda>train. t_status train = Queued) (map snd (trains s)))"
  then obtain k where entry: "(k, train) \<in> set (trains s)" and queued: "t_status train = Queued"
    by auto
  have "distinct (map fst (trains s))"
    using assms by (simp add: keyed_def)
  with entry have stored: "map_of (trains s) k = Some train"
    by simp
  with assms have "t_id train = k"
    unfolding keyed_def by blast
  with stored queued show "autoAssignToInspection def env (t_id train) s = Some s"
    by (simp add: autoAssignToInspection_queued)
qed

text \<open>
  Claim C4: when \<open>completeInspection\<close> frees a bay, a queued train is assigned to it. The
  code does not do so. In the run, train \<open>train_2500_def\<close> is queued in \<open>run4\<close> while
  \<open>train_2000_abc\<close> holds the only bay; the completion of that inspection leads to
  \<open>run5\<close>, where the bay is free and unoccupied, the second train is still queued, and no
  timer is pending for it. \<open>processQueuedTrains\<close> calls \<open>autoAssignToInspection\<close>, which
  returns at once for every train whose status is not \<open>arriving\<close>.
\<close>

theorem queued_train_stays_queued:
  "reachable smallYard run4
   \<and> statusOf run4 ''train_2500_def'' = Some Queued
   \<and> bayOccupant run4 ''IL1'' = Some (Some ''train_2000_abc'')
   \<and> fire smallYard (envAt 304000 [] (1 / 2)) 0 run4 = Some run5
   \<and> bayOccupant run5 ''IL1'' = Some None
   \<and> map_option b_status (map_of (inspectionBays run5) ''IL1'') = Some BayFree
   \<and> statusOf run5 ''train_2500_def'' = Some Queued
   \<and> pending run5 = [(1000, CallAssignTrainToWorkshop ''train_2000_abc'' ''WL4'')]"
proof -
  have "statusOf run4 ''train_2500_def'' = Some Queued"
    "bayOccupant run4 ''IL1'' = Some (Some ''train_2000_abc'')"
    by (simp_all add: statusOf_def bayOccupant_def run4_def run_defs)
  moreover have "bayOccupant run5 ''IL1'' = Some None"
    "map_option b_status (map_of (inspectionBays run5) ''IL1'') = Some BayFree"
    "statusOf run5 ''train_2500_def'' = Some Queued"
    "pending run5 = [(1000, CallAssignTrainToWorkshop ''train_2000_abc'' ''WL4'')]"
    by (simp_all add: statusOf_def bayOccupant_def run5_def run_defs)
  ultimately show ?thesis
    using reachable_run4 run_step5 by simp
qed

subsection \<open>No operation raises in a reachable state\<close>

lemma forEachInto_keys:
  assumes "forEachInto f index ids acc = Some registry"
    and "\<And>i k. f i k \<noteq> Some None"
  shows "set ids \<union> fst ` set acc \<subseteq> fst ` set registry"
  using assms(1)
proof (induction ids arbitrary: index acc)
  case Nil
  then show ?case by simp
next
  case (Cons nodeId rest)
  from Cons.prems assms(2) [of index nodeId] obtain v where
    "f index nodeId = Some (Some v)"
    and "forEachInto f (Suc index) rest (AList.update nodeId v acc) = Some registry"
    by (auto split: option.splits)
  from Cons.IH [OF this(2)] show ?case
    by (auto simp: dom_update)
qed

lemma baysRegistered_initializeState:
  assumes "initializeState def dateNow = Some s"
  shows "baysRegistered def s"
proof -
  from assms obtain bays where
    "forEachInto (initBay def) 0 (d_inspectionBays def) [] = Some bays"
    and "inspectionBays s = bays"
    by (auto simp: initializeState_def split: option.splits)
  moreover have "initBay def i k \<noteq> Some None" for i k
    by (simp add: initBay_def split: option.splits)
  ultimately have "set (d_inspectionBays def) \<subseteq> fst ` set (inspectionBays s)"
    using forEachInto_keys [of "initBay def" 0 "d_inspectionBays def" "[]" bays] by auto
  then show ?thesis
    by (auto simp: baysRegistered_def map_of_eq_None_iff)
qed

lemma baysRegistered_cong:
  "inspectionBays s' = inspectionBays s \<Longrightarrow> baysRegistered def s' = baysRegistered def s"
  by (simp add: baysRegistered_def)

lemma baysRegistered_assignTrainToInspection:
  "baysRegistered def s \<Longrightarrow> baysRegistered def (assignTrainToInspection env trainId bayId s)"
  by (auto simp: baysRegistered_def assignTrainToInspection_def update_conv' Let_def
      split: option.splits)

lemma baysRegistered_autoAssignToInspection:
  assumes "baysRegistered def s" and "autoAssignToInspection def env trainId s = Some s'"
  shows "baysRegistered def s'"
  using assms
  by (auto simp: autoAssignToInspection_def Let_def baysRegistered_assignTrainToInspection
      baysRegistered_cong [of "emitEvent t ty x m sev (u\<lparr> trains := r \<rparr>)" u for t ty x m sev u r]
      split: option.splits if_splits)

lemma baysRegistered_completeInspectionBody:
  "baysRegistered def s \<Longrightarrow>
     baysRegistered def (completeInspectionBody env trainId bayId train bay s)"
  by (auto simp: baysRegistered_def completeInspectionBody_def update_conv' Let_def)

lemma baysRegistered_completeInspection:
  assumes "baysRegistered def s" and "completeInspection def env trainId bayId s = Some s'"
  shows "baysRegistered def s'"
proof (cases "s' = s")
  case True
  with assms show ?thesis by simp
next
  case False
  with assms(2) obtain train bay where
    "processQueuedTrains def env (completeInspectionBody env trainId bayId train bay s) = Some s'"
    by (auto simp: completeInspection_def split: option.splits if_splits)
  then show ?thesis
    unfolding processQueuedTrains_def Let_def
    by (rule fold_bind_preserves)
      (use assms(1) baysRegistered_completeInspectionBody baysRegistered_autoAssignToInspection
        in blast)+
qed

lemma baysRegistered_runTimer:
  assumes "baysRegistered def s" and "runTimer def env cb s = Some s'"
  shows "baysRegistered def s'"
proof (cases cb)
  case (CallAutoAssignToInspection trainId)
  with assms show ?thesis
    by (auto simp: runTimer_def intro: baysRegistered_autoAssignToInspection)
next
  case (CallCompleteInspection trainId bayId)
  with assms show ?thesis
    by (auto simp: runTimer_def intro: baysRegistered_completeInspection)
next
  case (CallAssignTrainToSiding trainId slotId slot)
  have "inspectionBays (assignTrainToSiding env trainId slotId slot s) = inspectionBays s"
    by (simp add: assignTrainToSiding_def Let_def split: option.splits)
  with assms CallAssignTrainToSiding show ?thesis
    by (auto simp: runTimer_def baysRegistered_def)
next
  case (CallAssignTrainToWorkshop trainId lineId)
  have "inspectionBays (assignTrainToWorkshop env trainId lineId s) = inspectionBays s"
    by (simp add: assignTrainToWorkshop_def Let_def split: option.splits)
  with assms CallAssignTrainToWorkshop show ?thesis
    by (auto simp: runTimer_def baysRegistered_def)
next
  case (CallCompleteWorkshop trainId lineId)
  have "inspectionBays (completeWorkshop env trainId lineId s) = inspectionBays s"
    by (simp add: completeWorkshop_def Let_def split: option.splits)
  with assms CallCompleteWorkshop show ?thesis
    by (auto simp: runTimer_def baysRegistered_def)
qed

lemma reachable_baysRegistered: "reachable def s \<Longrightarrow> baysRegistered def s"
proof (induction rule: reachable.induct)
  case (constructed dateNow s)
  then show ?case by (rule baysRegistered_initializeState)
next
  case (command s env cmd)
  have "inspectionBays (processCommand env cmd s) = inspectionBays s"
    by (simp add: processCommand_def enqueueTrain_def assignTrainToSiding_def
        assignTrainToWorkshop_def Let_def split: CommandType.splits option.splits)
  with command.IH show ?case by (simp add: baysRegistered_def)
next
  case (enqueued s env trainData)
  then show ?case by (simp add: baysRegistered_def enqueueTrain_def Let_def)
next
  case (to_siding s env trainId slotId slot)
  then show ?case
    by (simp add: baysRegistered_def assignTrainToSiding_def Let_def split: option.splits)
next
  case (to_workshop s env trainId lineId)
  then show ?case
    by (simp add: baysRegistered_def assignTrainToWorkshop_def Let_def split: option.splits)
next
  case (fired s env i s')
  show ?case
  proof (cases "i < length (pending s)")
    case True
    have "baysRegistered def (s\<lparr> pending := p \<rparr>)" for p
      using fired.IH by (simp add: baysRegistered_def)
    with True fired.hyps(2) show ?thesis
      by (auto simp: fire_def intro: baysRegistered_runTimer)
  next
    case False
    with fired show ?thesis by (simp add: fire_def)
  qed
qed

lemma findFreeBay_returns:
  "\<forall>bayId \<in> set ids. map_of bays bayId \<noteq> None \<Longrightarrow> findFreeBay bays ids \<noteq> None"
  by (induction ids) (auto split: option.splits)

lemma reachable_fire_returns:
  assumes "reachable def s"
  shows "\<exists>s'. fire def env i s = Some s'"
proof (cases "i < length (pending s)")
  case False
  then show ?thesis by (simp add: fire_def)
next
  case True
  let ?s = "s\<lparr> pending := take i (pending s) @ drop (Suc i) (pending s) \<rparr>"
  have ok: "consistent ?s"
    using reachable_consistent [OF assms] by (simp add: consistent_cong [of ?s s])
  have bays: "baysRegistered def ?s"
    using reachable_baysRegistered [OF assms] by (simp add: baysRegistered_def)
  have "\<exists>s'. runTimer def env cb ?s = Some s'" for cb
  proof (cases cb)
    case (CallAutoAssignToInspection trainId)
    have "findFreeBay (inspectionBays ?s) (d_inspectionBays def) \<noteq> None"
      using bays by (intro findFreeBay_returns) (simp add: baysRegistered_def)
    with CallAutoAssignToInspection show ?thesis
      by (auto simp: runTimer_def autoAssignToInspection_def Let_def split: option.splits)
  next
    case (CallCompleteInspection trainId bayId)
    have "processQueuedTrains def env (completeInspectionBody env trainId bayId train bay ?s)
        \<noteq> None" if "map_of (trains ?s) trainId = Some train"
        "map_of (inspectionBays ?s) bayId = Some bay" for train bay
      using consistent_completeInspectionBody [OF ok that, of env]
      by (simp add: consistent_def processQueuedTrains_idle)
    with CallCompleteInspection show ?thesis
      by (auto simp: runTimer_def completeInspection_def split: option.splits)
  qed (simp_all add: runTimer_def)
  with True show ?thesis
    by (simp add: fire_def)
qed

subsection \<open>Workshop recommendations (C5)\<close>

lemma insertByScore_set [simp]: "set (insertByScore r xs) = insert r (set xs)"
  by (induction xs) auto

lemma insertByScore_length [simp]: "length (insertByScore r xs) = Suc (length xs)"
  by (induction xs) auto

lemma foldl_insertByScore:
  "set (foldl (\<lambda>sorted r. insertByScore r sorted) acc xs) = set acc \<union> set xs
   \<and> length (foldl (\<lambda>sorted r. insertByScore r sorted) acc xs) = length acc + length xs"
  by (induction xs arbitrary: acc) auto

lemma sortByScore_set [simp]: "set (sortByScore xs) = set xs"
  by (simp add: sortByScore_def foldl_insertByScore)

lemma sortByScore_length [simp]: "length (sortByScore xs) = length xs"
  by (simp add: sortByScore_def foldl_insertByScore)

lemma at_most_one_value:
  assumes "distinct (map fst al)" and "\<And>k v. (k, v) \<in> set al \<Longrightarrow> P v \<Longrightarrow> k = c"
  shows "length (filter P (map snd al)) \<le> 1"
  using assms
proof (induction al)
  case Nil
  then show ?case by simp
next
  case (Cons entry al)
  obtain k v where entry: "entry = (k, v)"
    by (cases entry)
  show ?case
  proof (cases "P v")
    case True
    then have "k = c"
      using Cons.prems(2) entry by auto
    have "\<not> P v'" if "(k', v') \<in> set al" for k' v'
    proof
      assume "P v'"
      then have "k' = c"
        using Cons.prems(2) that by auto
      with \<open>k = c\<close> that Cons.prems(1) entry show False
        by (auto intro: rev_image_eqI)
    qed
    then have "filter P (map snd al) = []"
      by (auto simp: filter_empty_conv)
    with True entry show ?thesis by simp
  next
    case False
    with Cons entry show ?thesis by auto
  qed
qed

lemma specialized_line:
  assumes "consistent s" and "(k, line) \<in> set (workshopLines s)"
  shows "w_id line = k"
    and "(w_specialization line = Some ''wheel-alignment'') = (k = ''WL4'')"
    and "map_of (workshopLines s) k = Some line"
proof -
  have "distinct (map fst (workshopLines s))"
    using assms(1) by (simp add: consistent_def linesFixed_def)
  with assms(2) show known: "map_of (workshopLines s) k = Some line"
    by simp
  with assms(1) show "w_id line = k"
    and "(w_specialization line = Some ''wheel-alignment'') = (k = ''WL4'')"
    unfolding consistent_def linesFixed_def by blast+
qed

text \<open>
  Claim C5: in every reachable state, for a train whose failures include
  \<open>wheel-alignment\<close>, every recommendation of \<open>generateWorkshopRecommendations\<close> targets
  \<open>WL4\<close>, a line whose specialization is \<open>wheel-alignment\<close>; the list has at most one
  element; no line without that specialization is among the targets.
\<close>

theorem wheel_alignment_only:
  assumes "reachable def s" and "map_of (trains s) trainId = Some train"
    and "arrayIncludes (t_failures train) ''wheel-alignment''"
  shows "(\<forall>r \<in> set (generateWorkshopRecommendations s trainId).
            r_targetId r = ''WL4''
            \<and> map_option w_specialization (map_of (workshopLines s) (r_targetId r))
                = Some (Some ''wheel-alignment''))
       \<and> length (generateWorkshopRecommendations s trainId) \<le> 1
       \<and> (\<forall>line \<in> set (map snd (workshopLines s)).
            w_specialization line \<noteq> Some ''wheel-alignment'' \<longrightarrow>
            w_id line \<notin> set (map r_targetId (generateWorkshopRecommendations s trainId)))"
proof -
  define eligible where "eligible =
    filter (\<lambda>workshop. \<not> truthy (w_occupiedBy workshop)
        \<and> w_specialization workshop = Some ''wheel-alignment'') (map snd (workshopLines s))"
  have recs: "generateWorkshopRecommendations s trainId
      = sortByScore (map (workshopRecommendation train) eligible)"
    using assms(2,3) by (simp add: generateWorkshopRecommendations_def eligible_def)
  have ok: "consistent s"
    using assms(1) by (rule reachable_consistent)
  have one: "length eligible \<le> 1"
    unfolding eligible_def
  proof (rule at_most_one_value [where c = "''WL4''"])
    show "distinct (map fst (workshopLines s))"
      using ok by (simp add: consistent_def linesFixed_def)
  next
    fix k line
    assume "(k, line) \<in> set (workshopLines s)"
      and "\<not> truthy (w_occupiedBy line) \<and> w_specialization line = Some ''wheel-alignment''"
    then show "k = ''WL4''"
      using specialized_line(2) [OF ok] by blast
  qed
  have lines: "w_id line = ''WL4''
      \<and> map_option w_specialization (map_of (workshopLines s) (w_id line))
          = Some (Some ''wheel-alignment'')"
    if "line \<in> set eligible" for line
  proof -
    from that obtain k where "(k, line) \<in> set (workshopLines s)"
      and "w_specialization line = Some ''wheel-alignment''"
      by (auto simp: eligible_def)
    with specialized_line [OF ok, of k line] show ?thesis
      by simp
  qed
  have targets: "r_targetId r = ''WL4''
      \<and> map_option w_specialization (map_of (workshopLines s) (r_targetId r))
          = Some (Some ''wheel-alignment'')"
    if "r \<in> set (generateWorkshopRecommendations s trainId)" for r
  proof -
    from that obtain line where "line \<in> set eligible" and "r_targetId r = w_id line"
      by (auto simp: recs workshopRecommendation_def)
    with lines [of line] show ?thesis
      by auto
  qed
  have others: "w_id line \<notin> set (map r_targetId (generateWorkshopRecommendations s trainId))"
    if "line \<in> set (map snd (workshopLines s))"
      and "w_specialization line \<noteq> Some ''wheel-alignment''" for line
  proof -
    from that(1) obtain k where "(k, line) \<in> set (workshopLines s)"
      by auto
    with specialized_line [OF ok, of k line] that(2) have "w_id line \<noteq> ''WL4''"
      by simp
    with targets show ?thesis
      by force
  qed
  have "length (generateWorkshopRecommendations s trainId) \<le> 1"
    using one by (simp add: recs)
  with targets others show ?thesis
    by blast
qed

text \<open>
  Claim C5, an instance in \<open>run5\<close>: the train with the wheel-alignment failure is
  recommended \<open>WL4\<close> alone, and not the free line \<open>WL1\<close>.
\<close>

theorem wheel_alignment_only_witness:
  "reachable smallYard run5
   \<and> statusOf run5 ''train_2000_abc'' = Some Moving
   \<and> map r_targetId (generateWorkshopRecommendations run5 ''train_2000_abc'') = [''WL4'']
   \<and> length (generateWorkshopRecommendations run5 ''train_2000_abc'') \<le> 1
   \<and> ''WL1'' \<notin> set (map r_targetId (generateWorkshopRecommendations run5 ''train_2000_abc''))"
proof -
  have train: "map_of (trains run5) ''train_2000_abc'' = Some (trainA Moving ''IL1'' 304000)"
    and wheel: "arrayIncludes (t_failures (trainA Moving ''IL1'' 304000)) ''wheel-alignment''"
    and line: "lineWL1 \<in> set (map snd (workshopLines run5))"
      "w_specialization lineWL1 \<noteq> Some ''wheel-alignment''" "w_id lineWL1 = ''WL1''"
    by (simp_all add: run5_def runState_def trainA_def arrayIncludes_def lineWL1_def)
  have "map r_targetId (generateWorkshopRecommendations run5 ''train_2000_abc'') = [''WL4'']"
    by (simp add: run5_def run_defs score_defs value_defs)
  moreover have "statusOf run5 ''train_2000_abc'' = Some Moving"
    by (simp add: statusOf_def train trainA_def)
  ultimately show ?thesis
    using wheel_alignment_only [OF reachable_run5 train wheel] line reachable_run5
    by simp
qed

subsection \<open>Events per operation (C9)\<close>









subsection \<open>Train creation (C10)\<close>




end
